theory Spec2Isabelle
  imports Main
begin

section \<open>Python values, errors and the filesystem capability interface\<close>

text \<open>
  The two filesystems of \<^verbatim>\<open>django_fsspec\<close> (\<^verbatim>\<open>NestedFileSystem\<close> in
  \<^verbatim>\<open>nested_fs.py\<close>, \<^verbatim>\<open>TransparentFileSystem\<close> in \<^verbatim>\<open>transparent_fs.py\<close>) are thin
  orchestrators over backing fsspec filesystems. Every exception the Python raises is a
  value of \<open>error\<close>; a call that may raise returns \<open>error + 'a\<close> with \<open>Inl\<close> the
  exception. \<open>ValueError\<close> carries its message; \<open>BackendError\<close> is any other error of a
  backing filesystem, passed on unchanged.
\<close>

datatype error =
    ValueError string
  | KeyError
  | TypeError
  | AttributeError
  | FileExistsError
  | FileNotFoundError
  | NotImplementedError
  | BackendError nat

type_synonym fsid = nat

text \<open>
  The dynamically typed values the code handles: \<open>None\<close>, booleans, integers, strings,
  filesystem objects (by identity) and tuples or lists of values.
\<close>

datatype pyval =
    PNone
  | PBool bool
  | PInt int
  | PStr string
  | PFs fsid
  | PList "pyval list"

text \<open>
  An item of a directory listing: fsspec's \<^verbatim>\<open>ls(path, detail=False)\<close> returns plain
  names (\<^verbatim>\<open>str\<close>), \<^verbatim>\<open>ls(path, detail=True)\<close> returns one \<^verbatim>\<open>dict\<close> per entry. A dict is
  kept as an association list, in insertion order.
\<close>

datatype entry =
    Name string
  | Info "(string \<times> pyval) list"

text \<open>
  The capability interface of a backing filesystem whose state has type \<open>'s\<close>. Queries
  read the state; mutating calls return the outcome together with the state they leave
  behind, also when they raise. \<open>fs_open_write s path mode content\<close> stands for
  \<^verbatim>\<open>with fs.open(path, mode) as f: f.write(content)\<close>.
\<close>

record 's fs_impl =
  fs_exists :: "'s \<Rightarrow> string \<Rightarrow> bool"
  fs_lexists :: "'s \<Rightarrow> string \<Rightarrow> error + bool"
  fs_ls :: "'s \<Rightarrow> string \<Rightarrow> bool \<Rightarrow> error + entry list"
  fs_ls_maxdepth :: "'s \<Rightarrow> string \<Rightarrow> int \<Rightarrow> error + entry list"
  fs_walk :: "'s \<Rightarrow> string \<Rightarrow> int option \<Rightarrow> (string \<times> string list \<times> string list) list"
  fs_read_text :: "'s \<Rightarrow> string \<Rightarrow> error + string"
  fs_cat_file :: "'s \<Rightarrow> string \<Rightarrow> error + string"
  fs_open_write :: "'s \<Rightarrow> string \<Rightarrow> string \<Rightarrow> string \<Rightarrow> (error + pyval) \<times> 's"
  fs_touch :: "'s \<Rightarrow> string \<Rightarrow> (error + pyval) \<times> 's"
  fs_rm_file :: "'s \<Rightarrow> string \<Rightarrow> (error + pyval) \<times> 's"
  fs_rm :: "'s \<Rightarrow> string \<Rightarrow> bool \<Rightarrow> int option \<Rightarrow> (error + pyval) \<times> 's"
  fs_rmdir :: "'s \<Rightarrow> string \<Rightarrow> (error + pyval) \<times> 's"
  fs_mkdirs :: "'s \<Rightarrow> string \<Rightarrow> bool \<Rightarrow> (error + pyval) \<times> 's"
  fs_cp_file :: "'s \<Rightarrow> string \<Rightarrow> string \<Rightarrow> (error + pyval) \<times> 's"
  fs_mv :: "'s \<Rightarrow> string \<Rightarrow> string \<Rightarrow> (error + pyval) \<times> 's"
  fs_get_file :: "'s \<Rightarrow> string \<Rightarrow> pyval option \<Rightarrow> (error + pyval) \<times> 's"
  fs_put_file :: "'s \<Rightarrow> pyval \<Rightarrow> string \<Rightarrow> (error + pyval) \<times> 's"

text \<open>
  Filesystem objects live in a store indexed by identity, so that two names for the same
  object share its state. \<open>call\<close> runs a mutating call on the object \<open>i\<close>.
\<close>

type_synonym 's store = "fsid \<Rightarrow> 's"

definition call :: "('s \<Rightarrow> (error + 'a) \<times> 's) \<Rightarrow> fsid \<Rightarrow> 's store \<Rightarrow> (error + 'a) \<times> 's store" where
  "call f i st = (case f (st i) of (r, s') \<Rightarrow> (r, st(i := s')))"

text \<open>
  Sequencing of two statements: when the first raises, the second does not run and the
  exception leaves with the state reached so far.
\<close>

definition seq :: "('w \<Rightarrow> (error + 'a) \<times> 'w) \<Rightarrow> ('a \<Rightarrow> 'w \<Rightarrow> (error + 'b) \<times> 'w) \<Rightarrow> 'w \<Rightarrow> (error + 'b) \<times> 'w" where
  "seq m f w = (case m w of (Inl e, w') \<Rightarrow> (Inl e, w') | (Inr x, w') \<Rightarrow> f x w')"

definition pure :: "error + 'a \<Rightarrow> 'w \<Rightarrow> (error + 'a) \<times> 'w" where
  "pure r w = (r, w)"

text \<open>
  Unpacking an iterable into two or three targets (\<^verbatim>\<open>a, b = t\<close>): a \<^verbatim>\<open>ValueError\<close> unless
  the iterable has exactly that many items.
\<close>

definition unpack2 :: "'a list \<Rightarrow> error + 'a \<times> 'a" where
  "unpack2 xs =
     (case xs of
        [a, b] \<Rightarrow> Inr (a, b)
      | _ \<Rightarrow> if length xs < 2 then Inl (ValueError ''not enough values to unpack (expected 2)'')
             else Inl (ValueError ''too many values to unpack (expected 2)''))"

definition unpack3 :: "'a list \<Rightarrow> error + 'a \<times> 'a \<times> 'a" where
  "unpack3 xs =
     (case xs of
        [a, b, c] \<Rightarrow> Inr (a, b, c)
      | _ \<Rightarrow> if length xs < 3 then Inl (ValueError ''not enough values to unpack (expected 3)'')
             else Inl (ValueError ''too many values to unpack (expected 3)''))"

text \<open>
  What iterating over a listing item gives: the characters of a \<^verbatim>\<open>str\<close>, the keys of a
  \<^verbatim>\<open>dict\<close>. \<^verbatim>\<open>item[key]\<close> works on a dict only, \<^verbatim>\<open>item.endswith\<close> exists on a \<^verbatim>\<open>str\<close> only.
\<close>

fun entry_iter :: "entry \<Rightarrow> string list" where
  "entry_iter (Name s) = map (\<lambda>c. [c]) s"
| "entry_iter (Info d) = map fst d"

fun entry_getitem :: "entry \<Rightarrow> string \<Rightarrow> error + pyval" where
  "entry_getitem (Name s) key = Inl TypeError"
| "entry_getitem (Info d) key = (case map_of d key of None \<Rightarrow> Inl KeyError | Some v \<Rightarrow> Inr v)"

section \<open>Strings\<close>

text \<open>\<^verbatim>\<open>str.split("/")\<close>: never empty, one more part than there are slashes.\<close>

fun split_slash :: "string \<Rightarrow> string list" where
  "split_slash [] = [[]]"
| "split_slash (c # cs) =
     (if c = CHR ''/'' then [] # split_slash cs
      else (c # hd (split_slash cs)) # tl (split_slash cs))"

text \<open>\<^verbatim>\<open>"/".join(parts)\<close>.\<close>

fun join_slash :: "string list \<Rightarrow> string" where
  "join_slash [] = []"
| "join_slash [x] = x"
| "join_slash (x # y # ys) = x @ ''/'' @ join_slash (y # ys)"

text \<open>\<^verbatim>\<open>s.endswith(suffix)\<close> and the slice \<^verbatim>\<open>s[:-n]\<close> for \<open>n > 0\<close>.\<close>

definition endswith :: "string \<Rightarrow> string \<Rightarrow> bool" where
  "endswith s suffix = (length suffix \<le> length s \<and> drop (length s - length suffix) s = suffix)"

definition drop_last :: "nat \<Rightarrow> string \<Rightarrow> string" where
  "drop_last n s = take (length s - n) s"

section \<open>The overlay: \<^verbatim>\<open>TransparentFileSystem\<close>\<close>

text \<open>
  \<^verbatim>\<open>ExistsReturn\<close>: \<open>er_where\<close> is 0 for \<^verbatim>\<open>transparent_fs\<close> and 1 for \<^verbatim>\<open>base_fs\<close>;
  \<open>er_modification\<close> is 0 (none), 1 (deleted) or 2 (replaced). The fields carry the prefix
  \<open>er_\<close> because \<^verbatim>\<open>where\<close> is reserved.
\<close>

record ExistsReturn =
  er_exists :: bool
  er_where :: int
  er_modification :: int
  er_path :: string

definition mkExistsReturn :: "bool \<Rightarrow> int \<Rightarrow> int \<Rightarrow> string \<Rightarrow> ExistsReturn" where
  "mkExistsReturn e w m p = \<lparr>er_exists = e, er_where = w, er_modification = m, er_path = p\<rparr>"

record overlay =
  transparent_fs :: fsid
  base_fs :: fsid

text \<open>\<^verbatim>\<open>_get_path_tree\<close>: the prefixes of the path, from the first segment to the whole path.\<close>

definition get_path_tree :: "string \<Rightarrow> string list" where
  "get_path_tree path =
     (let split_path = split_slash path
      in map (\<lambda>i. join_slash (take i split_path)) [1 ..< length split_path + 1])"

text \<open>
  The loop of \<^verbatim>\<open>_check_exists_and_where\<close> over the path tree, with the loop variables
  \<^verbatim>\<open>check_base_fs\<close> and \<^verbatim>\<open>modification\<close>. \<open>Inl\<close> is a \<^verbatim>\<open>return\<close> from inside the loop,
  \<open>Inr\<close> the loop variables when the loop runs to its end. \<open>ex\<close> is
  \<^verbatim>\<open>self.transparent_fs.exists\<close>.
\<close>

fun check_loop :: "(string \<Rightarrow> bool) \<Rightarrow> string \<Rightarrow> string list \<Rightarrow> bool \<Rightarrow> int \<Rightarrow> ExistsReturn + bool \<times> int" where
  "check_loop ex path [] check_base_fs modification = Inr (check_base_fs, modification)"
| "check_loop ex path (pt # pts) check_base_fs modification =
     (if ex pt then
        (if pt = path then Inl (mkExistsReturn True 0 0 pt)
         else check_loop ex path pts check_base_fs modification)
      else if ex (pt @ ''.deleted'') then Inl (mkExistsReturn False 0 1 pt)
      else if ex (pt @ ''.replaced'') then check_loop ex path pts False 2
      else check_loop ex path pts check_base_fs modification)"

definition check_exists_and_where :: "'s fs_impl \<Rightarrow> overlay \<Rightarrow> 's store \<Rightarrow> string \<Rightarrow> ExistsReturn" where
  "check_exists_and_where B ov st path =
     (case check_loop (fs_exists B (st (transparent_fs ov))) path (get_path_tree path) True 0 of
        Inl r \<Rightarrow> r
      | Inr (check_base_fs, modification) \<Rightarrow>
          if check_base_fs
          then mkExistsReturn (fs_exists B (st (base_fs ov)) path) 1 modification path
          else mkExistsReturn False 0 modification path)"

definition overlay_exists :: "'s fs_impl \<Rightarrow> overlay \<Rightarrow> 's store \<Rightarrow> string \<Rightarrow> bool" where
  "overlay_exists B ov st path = er_exists (check_exists_and_where B ov st path)"

text \<open>
  \<^verbatim>\<open>__leading_fs\<close>: the filesystem that serves a read. A path that does not exist at all
  is served by \<^verbatim>\<open>transparent_fs\<close>.
\<close>

definition leading_fs :: "'s fs_impl \<Rightarrow> overlay \<Rightarrow> 's store \<Rightarrow> string \<Rightarrow> fsid" where
  "leading_fs B ov st path =
     (let ex = check_exists_and_where B ov st path
      in if \<not> er_exists ex then transparent_fs ov
         else if er_where ex = 0 then transparent_fs ov
         else base_fs ov)"

definition overlay_read_text :: "'s fs_impl \<Rightarrow> overlay \<Rightarrow> 's store \<Rightarrow> string \<Rightarrow> error + string" where
  "overlay_read_text B ov st path = fs_read_text B (st (leading_fs B ov st path)) path"

text \<open>
  \<^verbatim>\<open>ls\<close>. The dict \<^verbatim>\<open>out\<close> is an association list in insertion order, its keys the
  values found under \<^verbatim>\<open>"name"\<close> or the strings of the second loop. \<^verbatim>\<open>out[k] = v\<close> keeps
  the place of a key that is there and appends a new one; \<^verbatim>\<open>del out[k]\<close> raises
  \<^verbatim>\<open>KeyError\<close> on a missing key; a list is not hashable. The names of a listing are
  strings, and keys are compared as values of one kind.
\<close>

type_synonym listing_dict = "(pyval \<times> entry) list"

fun dict_set :: "listing_dict \<Rightarrow> pyval \<Rightarrow> entry \<Rightarrow> listing_dict" where
  "dict_set [] k v = [(k, v)]"
| "dict_set ((k', v') # d) k v = (if k' = k then (k, v) # d else (k', v') # dict_set d k v)"

definition dict_del :: "listing_dict \<Rightarrow> pyval \<Rightarrow> error + listing_dict" where
  "dict_del d k =
     (if k \<in> fst ` set d then Inr (filter (\<lambda>kv. fst kv \<noteq> k) d) else Inl KeyError)"

fun hashable :: "pyval \<Rightarrow> bool" where
  "hashable (PList xs) = False"
| "hashable v = True"

text \<open>The dict comprehension \<^verbatim>\<open>{item["name"]: item for item in base_fs.ls(...)}\<close>.\<close>

fun ls_base_dict :: "entry list \<Rightarrow> listing_dict \<Rightarrow> error + listing_dict" where
  "ls_base_dict [] out = Inr out"
| "ls_base_dict (item # items) out =
     (case entry_getitem item ''name'' of
        Inl e \<Rightarrow> Inl e
      | Inr k \<Rightarrow> if hashable k then ls_base_dict items (dict_set out k item) else Inl TypeError)"

definition replaced_entry :: "string \<Rightarrow> entry" where
  "replaced_entry n =
     Info [(''name'', PStr n), (''type'', PStr ''directory''), (''size'', PInt 0),
           (''created'', PInt 0), (''modified'', PInt 0)]"

text \<open>The loop over \<^verbatim>\<open>transparent_fs.ls(...)\<close>; \<^verbatim>\<open>item.endswith\<close> is its first action.\<close>

fun ls_overlay_loop :: "entry list \<Rightarrow> listing_dict \<Rightarrow> error + listing_dict" where
  "ls_overlay_loop [] out = Inr out"
| "ls_overlay_loop (Info d # items) out = Inl AttributeError"
| "ls_overlay_loop (Name item # items) out =
     (if endswith item ''.deleted'' then
        (case dict_del out (PStr (drop_last 8 item)) of
           Inl e \<Rightarrow> Inl e
         | Inr out' \<Rightarrow> ls_overlay_loop items out')
      else if endswith item ''.replaced'' then
        ls_overlay_loop items
          (dict_set out (PStr (drop_last 9 item)) (replaced_entry (drop_last 9 item)))
      else ls_overlay_loop items (dict_set out (PStr item) (Name item)))"

definition overlay_ls :: "'s fs_impl \<Rightarrow> overlay \<Rightarrow> 's store \<Rightarrow> string \<Rightarrow> bool \<Rightarrow> error + entry list" where
  "overlay_ls B ov st path detail =
     (case fs_ls B (st (base_fs ov)) path detail of
        Inl e \<Rightarrow> Inl e
      | Inr base_items \<Rightarrow>
          (case ls_base_dict base_items [] of
             Inl e \<Rightarrow> Inl e
           | Inr out \<Rightarrow>
               (case fs_ls B (st (transparent_fs ov)) path detail of
                  Inl e \<Rightarrow> Inl e
                | Inr items \<Rightarrow>
                    (case ls_overlay_loop items out of
                       Inl e \<Rightarrow> Inl e
                     | Inr out' \<Rightarrow> Inr (map snd out')))))"

text \<open>
  \<^verbatim>\<open>lexists\<close> calls \<^verbatim>\<open>self._get_filesystem\<close>. The class body of \<^verbatim>\<open>TransparentFileSystem\<close>
  defines no attribute of that name (it is a method of \<^verbatim>\<open>NestedFileSystem\<close>), so the
  lookup goes on to the base class \<^verbatim>\<open>fsspec.AbstractFileSystem\<close>, which is not part of this
  repository: \<open>inherited\<close> is what that class provides under a name, if anything, as a
  function of the path.
\<close>

fun iter_pyval :: "pyval \<Rightarrow> error + pyval list" where
  "iter_pyval (PList xs) = Inr xs"
| "iter_pyval (PStr s) = Inr (map (\<lambda>c. PStr [c]) s)"
| "iter_pyval v = Inl TypeError"

definition overlay_lexists ::
  "'s fs_impl \<Rightarrow> (string \<rightharpoonup> (string \<Rightarrow> error + pyval)) \<Rightarrow> overlay \<Rightarrow> 's store \<Rightarrow> string \<Rightarrow> error + bool" where
  "overlay_lexists B inherited ov st path =
     (case inherited ''_get_filesystem'' of
        None \<Rightarrow> Inl AttributeError
      | Some get_filesystem \<Rightarrow>
          (case get_filesystem path of
             Inl e \<Rightarrow> Inl e
           | Inr t \<Rightarrow>
               (case iter_pyval t of
                  Inl e \<Rightarrow> Inl e
                | Inr xs \<Rightarrow>
                    (case unpack3 xs of
                       Inl e \<Rightarrow> Inl e
                     | Inr (fs, root_path, nested_path) \<Rightarrow>
                         (case (fs, nested_path) of
                            (PNone, _) \<Rightarrow> Inr False
                          | (PFs i, PStr p) \<Rightarrow> fs_lexists B (st i) p
                          | (PFs i, _) \<Rightarrow> Inl TypeError
                          | _ \<Rightarrow> Inl AttributeError)))))"

text \<open>
  \<^verbatim>\<open>rm_file\<close>. \<^verbatim>\<open>fs == self.transparent_fs\<close> compares filesystem objects; equal objects
  are one object of the store.
\<close>

definition overlay_rm_file :: "'s fs_impl \<Rightarrow> overlay \<Rightarrow> string \<Rightarrow> 's store \<Rightarrow> (error + pyval) \<times> 's store" where
  "overlay_rm_file B ov path st =
     (let fs = leading_fs B ov st path
      in if fs = transparent_fs ov
         then call (\<lambda>s. fs_rm_file B s path) (transparent_fs ov) st
         else seq (call (\<lambda>s. fs_touch B s (path @ ''.deleted'')) (transparent_fs ov))
                  (\<lambda>_. pure (Inr (PBool True))) st)"

text \<open>
  \<^verbatim>\<open>cp_file\<close>: within \<^verbatim>\<open>transparent_fs\<close> the copy is delegated; otherwise the source is
  opened for reading on its filesystem, the target for writing on \<^verbatim>\<open>transparent_fs\<close>,
  and the bytes are copied.
\<close>

definition overlay_cp_file :: "'s fs_impl \<Rightarrow> overlay \<Rightarrow> string \<Rightarrow> string \<Rightarrow> 's store \<Rightarrow> (error + pyval) \<times> 's store" where
  "overlay_cp_file B ov path1 path2 st =
     (let fs = leading_fs B ov st path1
      in if fs = transparent_fs ov
         then call (\<lambda>s. fs_cp_file B s path1 path2) fs st
         else (case fs_cat_file B (st fs) path1 of
                 Inl e \<Rightarrow> (Inl e, st)
               | Inr bytes \<Rightarrow>
                   seq (call (\<lambda>s. fs_open_write B s path2 ''wb'' bytes) (transparent_fs ov))
                       (\<lambda>_. pure (Inr PNone)) st))"

text \<open>
  \<^verbatim>\<open>__get_fs_for_open\<close>: the filesystem to open the file on, \<open>None\<close> when the mode has
  none of \<^verbatim>\<open>w\<close>, \<^verbatim>\<open>a\<close>, \<^verbatim>\<open>r\<close>. \<open>parent\<close> is \<^verbatim>\<open>str(Path(path).parent)\<close> of \<^verbatim>\<open>pathlib\<close>.
\<close>

definition get_fs_for_open ::
  "'s fs_impl \<Rightarrow> (string \<Rightarrow> string) \<Rightarrow> overlay \<Rightarrow> string \<Rightarrow> string \<Rightarrow> 's store \<Rightarrow> (error + fsid option) \<times> 's store" where
  "get_fs_for_open B parent ov path method st =
     (if CHR ''w'' \<in> set method then
        seq (call (\<lambda>s. fs_mkdirs B s (parent path) True) (transparent_fs ov))
            (\<lambda>_. pure (Inr (Some (transparent_fs ov)))) st
      else if CHR ''a'' \<in> set method then
        (if fs_exists B (st (transparent_fs ov)) (path @ ''.deleted'') then
           seq (call (\<lambda>s. fs_rm B s (path @ ''.deleted'') False None) (transparent_fs ov))
               (\<lambda>_. pure (Inr (Some (transparent_fs ov)))) st
         else
           (let ex = check_exists_and_where B ov st path
            in if er_exists ex \<and> er_where ex = 1 then
                 seq (call (\<lambda>s. fs_mkdirs B s (parent path) True) (transparent_fs ov))
                     (\<lambda>_. seq (overlay_cp_file B ov path path)
                               (\<lambda>_. pure (Inr (Some (transparent_fs ov))))) st
               else (Inr (Some (transparent_fs ov)), st)))
      else if CHR ''r'' \<in> set method then (Inr (Some (leading_fs B ov st path)), st)
      else (Inr None, st))"

text \<open>
  \<^verbatim>\<open>with overlay.open(path, method) as f: f.write(content)\<close>: \<^verbatim>\<open>open\<close> hands out the file
  object of the filesystem chosen by \<^verbatim>\<open>__get_fs_for_open\<close>; on \<open>None\<close> the attribute
  \<^verbatim>\<open>open\<close> is missing.
\<close>

definition overlay_open_write ::
  "'s fs_impl \<Rightarrow> (string \<Rightarrow> string) \<Rightarrow> overlay \<Rightarrow> string \<Rightarrow> string \<Rightarrow> string \<Rightarrow> 's store \<Rightarrow> (error + pyval) \<times> 's store" where
  "overlay_open_write B parent ov path method content st =
     seq (get_fs_for_open B parent ov path method)
         (\<lambda>fs. case fs of
                  None \<Rightarrow> pure (Inl AttributeError)
                | Some i \<Rightarrow> call (\<lambda>s. fs_open_write B s path method content) i) st"

section \<open>The routing filesystem: \<^verbatim>\<open>NestedFileSystem\<close>\<close>

text \<open>
  \<^verbatim>\<open>self.file_systems\<close> is a dict from mount key to filesystem object, kept in insertion
  order; its values are never \<open>None\<close>, so the guards \<^verbatim>\<open>if fs is None\<close> never fire.
  \<^verbatim>\<open>str.split("/", 1)\<close> splits at the first slash only.
\<close>

type_synonym mounts = "(string \<times> fsid) list"

definition split_first :: "string \<Rightarrow> string list" where
  "split_first s =
     (if CHR ''/'' \<in> set s
      then [takeWhile (\<lambda>c. c \<noteq> CHR ''/'') s, tl (dropWhile (\<lambda>c. c \<noteq> CHR ''/'') s)]
      else [s])"

definition get_default :: "mounts \<Rightarrow> string \<Rightarrow> error + fsid \<times> string \<times> string" where
  "get_default file_systems path =
     (case map_of file_systems ''default'' of
        None \<Rightarrow> Inl KeyError
      | Some fs \<Rightarrow> Inr (fs, '''', path))"

text \<open>
  \<^verbatim>\<open>_get_filesystem\<close>. With a single part \<^verbatim>\<open>root_path\<close> is \<open>None\<close>, which is no key of
  the dict, so the lookup of \<^verbatim>\<open>root_path\<close> is skipped for it.
\<close>

definition get_filesystem :: "mounts \<Rightarrow> string \<Rightarrow> error + fsid \<times> string \<times> string" where
  "get_filesystem file_systems path =
     (case split_first path of
        [part] \<Rightarrow>
          (case map_of file_systems path of
             Some fs \<Rightarrow> Inr (fs, path, '''')
           | None \<Rightarrow> get_default file_systems path)
      | [root_path, nested_path] \<Rightarrow>
          (case map_of file_systems root_path of
             Some fs \<Rightarrow> Inr (fs, root_path, nested_path)
           | None \<Rightarrow> get_default file_systems path)
      | _ \<Rightarrow> Inl (ValueError ''too many values to unpack (expected 2)''))"

definition nested_exists :: "'s fs_impl \<Rightarrow> mounts \<Rightarrow> 's store \<Rightarrow> string \<Rightarrow> error + bool" where
  "nested_exists B file_systems st path =
     (case get_filesystem file_systems path of
        Inl e \<Rightarrow> Inl e
      | Inr (fs, root_path, nested_path) \<Rightarrow> Inr (fs_exists B (st fs) nested_path))"

definition nested_rmdir :: "'s fs_impl \<Rightarrow> mounts \<Rightarrow> string \<Rightarrow> 's store \<Rightarrow> (error + pyval) \<times> 's store" where
  "nested_rmdir B file_systems path st =
     (if path = '''' then (Inl (ValueError ''Cannot remove root path''), st)
      else (case get_filesystem file_systems path of
              Inl e \<Rightarrow> (Inl e, st)
            | Inr (fs, root_path, nested_path) \<Rightarrow> call (\<lambda>s. fs_rmdir B s nested_path) fs st))"

text \<open>\<^verbatim>\<open>rm\<close>: the depth of the mount key is taken off \<^verbatim>\<open>maxdepth\<close>.\<close>

definition nested_rm ::
  "'s fs_impl \<Rightarrow> mounts \<Rightarrow> string \<Rightarrow> bool \<Rightarrow> int option \<Rightarrow> 's store \<Rightarrow> (error + pyval) \<times> 's store" where
  "nested_rm B file_systems path recursive maxdepth st =
     (case get_filesystem file_systems path of
        Inl e \<Rightarrow> (Inl e, st)
      | Inr (fs, root_path, nested_path) \<Rightarrow>
          (let maxdepth' =
                 (case maxdepth of
                    None \<Rightarrow> None
                  | Some m \<Rightarrow>
                      if root_path \<noteq> '''' then Some (m - int (length (split_slash root_path)))
                      else Some m)
           in call (\<lambda>s. fs_rm B s nested_path recursive maxdepth') fs st))"

text \<open>
  \<^verbatim>\<open>cp_file\<close> and \<^verbatim>\<open>mv\<close> unpack the result of \<^verbatim>\<open>_get_filesystem\<close>, a tuple of three, into
  two targets. The tuple is a list of values; a method call needs a filesystem object as
  its receiver and strings as its paths.
\<close>

definition tuple_of :: "fsid \<times> string \<times> string \<Rightarrow> pyval list" where
  "tuple_of t = (case t of (fs, root_path, nested_path) \<Rightarrow> [PFs fs, PStr root_path, PStr nested_path])"

definition with_fs :: "pyval \<Rightarrow> (fsid \<Rightarrow> 'w \<Rightarrow> (error + 'a) \<times> 'w) \<Rightarrow> 'w \<Rightarrow> (error + 'a) \<times> 'w" where
  "with_fs v f = (case v of PFs i \<Rightarrow> f i | _ \<Rightarrow> pure (Inl AttributeError))"

definition with_str :: "pyval \<Rightarrow> (string \<Rightarrow> 'w \<Rightarrow> (error + 'a) \<times> 'w) \<Rightarrow> 'w \<Rightarrow> (error + 'a) \<times> 'w" where
  "with_str v f = (case v of PStr s \<Rightarrow> f s | _ \<Rightarrow> pure (Inl TypeError))"

definition nested_cp_file :: "'s fs_impl \<Rightarrow> mounts \<Rightarrow> string \<Rightarrow> string \<Rightarrow> 's store \<Rightarrow> (error + pyval) \<times> 's store" where
  "nested_cp_file B file_systems path1 path2 =
     seq (pure (get_filesystem file_systems path1)) (\<lambda>t1.
     seq (pure (unpack2 (tuple_of t1))) (\<lambda>(fs1, nested_path1).
     seq (pure (get_filesystem file_systems path2)) (\<lambda>t2.
     seq (pure (unpack2 (tuple_of t2))) (\<lambda>(fs2, nested_path2).
       if fs1 = fs2 then
         with_fs fs1 (\<lambda>i. with_str nested_path1 (\<lambda>p1. with_str nested_path2 (\<lambda>p2.
           call (\<lambda>s. fs_cp_file B s p1 p2) i)))
       else
         seq (with_fs fs1 (\<lambda>i. with_str nested_path1 (\<lambda>p1.
                call (\<lambda>s. fs_get_file B s p1 None) i)))
             (\<lambda>tmp. with_fs fs2 (\<lambda>j. with_str nested_path2 (\<lambda>p2.
                call (\<lambda>s. fs_put_file B s tmp p2) j)))))))"

definition nested_mv :: "'s fs_impl \<Rightarrow> mounts \<Rightarrow> string \<Rightarrow> string \<Rightarrow> 's store \<Rightarrow> (error + pyval) \<times> 's store" where
  "nested_mv B file_systems path1 path2 =
     seq (pure (get_filesystem file_systems path1)) (\<lambda>t1.
     seq (pure (unpack2 (tuple_of t1))) (\<lambda>(fs1, nested_path1).
     seq (pure (get_filesystem file_systems path2)) (\<lambda>t2.
     seq (pure (unpack2 (tuple_of t2))) (\<lambda>(fs2, nested_path2).
       if fs1 = fs2 then
         with_fs fs1 (\<lambda>i. with_str nested_path1 (\<lambda>p1. with_str nested_path2 (\<lambda>p2.
           call (\<lambda>s. fs_mv B s p1 p2) i)))
       else
         seq (nested_cp_file B file_systems path1 path2)
             (\<lambda>_. with_fs fs1 (\<lambda>i. with_str nested_path1 (\<lambda>p1.
                call (\<lambda>s. fs_rm B s p1 False None) i)))))))"

text \<open>
  \<^verbatim>\<open>walk\<close> is a generator: the model gives what it yields, in order, and the exception
  that ends it, if any. Only the path \<^verbatim>\<open>""\<close> has a body. The second loop iterates over
  \<^verbatim>\<open>fs.ls("", maxdepth=maxdepth - 1)\<close> and unpacks every item of that listing into three
  names; \<^verbatim>\<open>maxdepth - 1\<close> raises \<^verbatim>\<open>TypeError\<close> on \<open>None\<close>.
\<close>

type_synonym walk_item = "string \<times> pyval \<times> pyval"

definition names :: "string list \<Rightarrow> pyval" where
  "names xs = PList (map PStr xs)"

fun walk_items :: "string \<Rightarrow> entry list \<Rightarrow> walk_item list \<times> error option" where
  "walk_items root_path [] = ([], None)"
| "walk_items root_path (item # items) =
     (case unpack3 (entry_iter item) of
        Inl e \<Rightarrow> ([], Some e)
      | Inr (base_path, dirs, files) \<Rightarrow>
          (case walk_items root_path items of
             (ys, r) \<Rightarrow> ((root_path @ ''/'' @ base_path, PStr dirs, PStr files) # ys, r)))"

fun walk_mounts :: "'s fs_impl \<Rightarrow> 's store \<Rightarrow> int option \<Rightarrow> mounts \<Rightarrow> walk_item list \<times> error option" where
  "walk_mounts B st maxdepth [] = ([], None)"
| "walk_mounts B st maxdepth ((root_path, fs) # rest) =
     (if root_path = ''default'' then walk_mounts B st maxdepth rest
      else (case maxdepth of
              None \<Rightarrow> ([], Some TypeError)
            | Some m \<Rightarrow>
                (case fs_ls_maxdepth B (st fs) '''' (m - 1) of
                   Inl e \<Rightarrow> ([], Some e)
                 | Inr items \<Rightarrow>
                     (case walk_items root_path items of
                        (ys, Some e) \<Rightarrow> (ys, Some e)
                      | (ys, None) \<Rightarrow>
                          (case walk_mounts B st maxdepth rest of
                             (zs, r) \<Rightarrow> (ys @ zs, r))))))"

definition walk_default :: "'s fs_impl \<Rightarrow> 's store \<Rightarrow> int option \<Rightarrow> mounts \<Rightarrow> walk_item list" where
  "walk_default B st maxdepth file_systems =
     (case map_of file_systems ''default'' of
        None \<Rightarrow> []
      | Some fs \<Rightarrow>
          map (\<lambda>(base_path, dirs, files).
                 if base_path = ''''
                 then ('''', names (dirs @ filter (\<lambda>rpath. rpath \<noteq> ''default'') (map fst file_systems)),
                       names files)
                 else (base_path, names dirs, names files))
              (fs_walk B (st fs) '''' maxdepth))"

definition nested_walk :: "'s fs_impl \<Rightarrow> mounts \<Rightarrow> 's store \<Rightarrow> string \<Rightarrow> int option \<Rightarrow> walk_item list \<times> error option" where
  "nested_walk B file_systems st path maxdepth =
     (if path = '''' then
        (case walk_mounts B st maxdepth file_systems of
           (ys, r) \<Rightarrow> (walk_default B st maxdepth file_systems @ ys, r))
      else ([], None))"

section \<open>An in-memory backing filesystem\<close>

text \<open>
  A small filesystem that implements the capability interface, to run the two
  filesystems on concrete inputs: its state lists the paths that exist, each a file
  with its content or a directory. A listing holds the full paths of the children.
\<close>

datatype node = File string | Dir

type_synonym mem_state = "(string \<times> node) list"

definition mem_put :: "mem_state \<Rightarrow> string \<Rightarrow> node \<Rightarrow> mem_state" where
  "mem_put s p n = filter (\<lambda>kv. fst kv \<noteq> p) s @ [(p, n)]"

definition mem_del :: "mem_state \<Rightarrow> string \<Rightarrow> mem_state" where
  "mem_del s p = filter (\<lambda>kv. fst kv \<noteq> p) s"

definition mem_exists :: "mem_state \<Rightarrow> string \<Rightarrow> bool" where
  "mem_exists s p = (map_of s p \<noteq> None)"

definition mem_read :: "mem_state \<Rightarrow> string \<Rightarrow> error + string" where
  "mem_read s p = (case map_of s p of Some (File c) \<Rightarrow> Inr c | _ \<Rightarrow> Inl FileNotFoundError)"

text \<open>
  \<^verbatim>\<open>read_text\<close> opens the file in text mode, where Python reads with universal newlines:
  a carriage return followed by a line feed, and a lone carriage return, both come back
  as one line feed. \<^verbatim>\<open>cat_file\<close> reads the bytes as they are stored.
\<close>

fun universal_newlines :: "string \<Rightarrow> string" where
  "universal_newlines [] = []"
| "universal_newlines [c] = (if c = CHR 0x0D then [CHR 0x0A] else [c])"
| "universal_newlines (c # d # ds) =
     (if c = CHR 0x0D \<and> d = CHR 0x0A then CHR 0x0A # universal_newlines ds
      else if c = CHR 0x0D then CHR 0x0A # universal_newlines (d # ds)
      else c # universal_newlines (d # ds))"

definition mem_read_text :: "mem_state \<Rightarrow> string \<Rightarrow> error + string" where
  "mem_read_text s p =
     (case mem_read s p of Inl e \<Rightarrow> Inl e | Inr c \<Rightarrow> Inr (universal_newlines c))"

definition under :: "string \<Rightarrow> string \<Rightarrow> bool" where
  "under d k = (d = [] \<or> take (Suc (length d)) k = d @ ''/'')"

definition child :: "string \<Rightarrow> string \<Rightarrow> bool" where
  "child d k =
     (k \<noteq> [] \<and> under d k \<and> CHR ''/'' \<notin> set (drop (if d = [] then 0 else Suc (length d)) k))"

definition mem_entry :: "bool \<Rightarrow> string \<times> node \<Rightarrow> entry" where
  "mem_entry detail kv =
     (case kv of
        (k, File c) \<Rightarrow>
          if detail then Info [(''name'', PStr k), (''size'', PInt (int (length c))), (''type'', PStr ''file'')]
          else Name k
      | (k, Dir) \<Rightarrow>
          if detail then Info [(''name'', PStr k), (''size'', PInt 0), (''type'', PStr ''directory'')]
          else Name k)"

definition mem_ls :: "mem_state \<Rightarrow> string \<Rightarrow> bool \<Rightarrow> error + entry list" where
  "mem_ls s d detail = Inr (map (mem_entry detail) (filter (\<lambda>kv. child d (fst kv)) s))"

definition mem_walk :: "mem_state \<Rightarrow> string \<Rightarrow> int option \<Rightarrow> (string \<times> string list \<times> string list) list" where
  "mem_walk s d maxdepth =
     [(d, map fst (filter (\<lambda>kv. child d (fst kv) \<and> snd kv = Dir) s),
          map fst (filter (\<lambda>kv. child d (fst kv) \<and> snd kv \<noteq> Dir) s))]"

definition mem_open_write :: "mem_state \<Rightarrow> string \<Rightarrow> string \<Rightarrow> string \<Rightarrow> (error + pyval) \<times> mem_state" where
  "mem_open_write s p mode content =
     (if CHR ''w'' \<in> set mode then (Inr PNone, mem_put s p (File content))
      else if CHR ''a'' \<in> set mode
      then (Inr PNone, mem_put s p (File ((case mem_read s p of Inr c \<Rightarrow> c | Inl e \<Rightarrow> '''') @ content)))
      else (Inl (BackendError 0), s))"

definition mem_rm_file :: "mem_state \<Rightarrow> string \<Rightarrow> (error + pyval) \<times> mem_state" where
  "mem_rm_file s p =
     (case map_of s p of
        Some (File c) \<Rightarrow> (Inr PNone, mem_del s p)
      | _ \<Rightarrow> (Inl FileNotFoundError, s))"

definition mem_rm :: "mem_state \<Rightarrow> string \<Rightarrow> bool \<Rightarrow> int option \<Rightarrow> (error + pyval) \<times> mem_state" where
  "mem_rm s p recursive maxdepth =
     (if recursive then (Inr PNone, filter (\<lambda>kv. fst kv \<noteq> p \<and> \<not> under p (fst kv)) s)
      else mem_rm_file s p)"

definition mem_rmdir :: "mem_state \<Rightarrow> string \<Rightarrow> (error + pyval) \<times> mem_state" where
  "mem_rmdir s p =
     (case map_of s p of
        Some Dir \<Rightarrow> (Inr PNone, mem_del s p)
      | _ \<Rightarrow> (Inl FileNotFoundError, s))"

definition mem_mkdirs :: "mem_state \<Rightarrow> string \<Rightarrow> bool \<Rightarrow> (error + pyval) \<times> mem_state" where
  "mem_mkdirs s p exist_ok =
     (if mem_exists s p then (if exist_ok then (Inr PNone, s) else (Inl FileExistsError, s))
      else (Inr PNone, mem_put s p Dir))"

definition mem_cp_file :: "mem_state \<Rightarrow> string \<Rightarrow> string \<Rightarrow> (error + pyval) \<times> mem_state" where
  "mem_cp_file s a b =
     (case mem_read s a of Inl e \<Rightarrow> (Inl e, s) | Inr c \<Rightarrow> (Inr PNone, mem_put s b (File c)))"

definition mem_mv :: "mem_state \<Rightarrow> string \<Rightarrow> string \<Rightarrow> (error + pyval) \<times> mem_state" where
  "mem_mv s a b =
     (case map_of s a of
        None \<Rightarrow> (Inl FileNotFoundError, s)
      | Some n \<Rightarrow> (Inr PNone, mem_put (mem_del s a) b n))"

text \<open>The local disk of \<^verbatim>\<open>get_file\<close> and \<^verbatim>\<open>put_file\<close> is empty and read-only.\<close>

definition mem_get_file :: "mem_state \<Rightarrow> string \<Rightarrow> pyval option \<Rightarrow> (error + pyval) \<times> mem_state" where
  "mem_get_file s rpath lpath =
     (case lpath of
        None \<Rightarrow> (Inl TypeError, s)
      | Some l \<Rightarrow> (case mem_read s rpath of Inl e \<Rightarrow> (Inl e, s) | Inr c \<Rightarrow> (Inl (BackendError 1), s)))"

definition mem_put_file :: "mem_state \<Rightarrow> pyval \<Rightarrow> string \<Rightarrow> (error + pyval) \<times> mem_state" where
  "mem_put_file s lpath rpath =
     (case lpath of PStr l \<Rightarrow> (Inl FileNotFoundError, s) | _ \<Rightarrow> (Inl TypeError, s))"

definition mem :: "mem_state fs_impl" where
  "mem =
     \<lparr>fs_exists = mem_exists,
      fs_lexists = (\<lambda>s p. Inr (mem_exists s p)),
      fs_ls = mem_ls,
      fs_ls_maxdepth = (\<lambda>s p m. mem_ls s p True),
      fs_walk = mem_walk,
      fs_read_text = mem_read_text,
      fs_cat_file = mem_read,
      fs_open_write = mem_open_write,
      fs_touch = (\<lambda>s p. (Inr PNone, mem_put s p (File ''''))),
      fs_rm_file = mem_rm_file,
      fs_rm = mem_rm,
      fs_rmdir = mem_rmdir,
      fs_mkdirs = mem_mkdirs,
      fs_cp_file = mem_cp_file,
      fs_mv = mem_mv,
      fs_get_file = mem_get_file,
      fs_put_file = mem_put_file\<rparr>"

text \<open>
  \<^verbatim>\<open>str(PurePosixPath(path).parent)\<close>: empty and \<^verbatim>\<open>.\<close> segments are dropped, exactly two
  leading slashes are kept, the parent of a path of one segment is \<^verbatim>\<open>.\<close> or the root.
\<close>

definition posix_parent :: "string \<Rightarrow> string" where
  "posix_parent path =
     (let parts = filter (\<lambda>s. s \<noteq> [] \<and> s \<noteq> ''.'') (split_slash path);
          root = (if take 2 path = ''//'' \<and> take 3 path \<noteq> ''///'' then ''//''
                  else if take 1 path = ''/'' then ''/'' else '''')
      in if butlast parts = [] then (if root = [] then ''.'' else root)
         else root @ join_slash (butlast parts))"

text \<open>Two stores: delta as object 0 and base as object 1, and the overlay over them.\<close>

definition two_layers :: "mem_state \<Rightarrow> mem_state \<Rightarrow> mem_state store" where
  "two_layers delta base = (\<lambda>i. if i = 0 then delta else base)"

definition delta_over_base :: overlay where
  "delta_over_base = \<lparr>transparent_fs = 0, base_fs = 1\<rparr>"

section \<open>Path trees\<close>

lemma split_slash_nonempty: "split_slash s \<noteq> []"
  by (induction s) auto

lemma join_split_slash: "join_slash (split_slash s) = s"
proof (induction s)
  case Nil
  show ?case by simp
next
  case (Cons c cs)
  obtain w ws where sp: "split_slash cs = w # ws"
    using split_slash_nonempty [of cs] by (cases "split_slash cs") auto
  show ?case using Cons sp by (cases ws) auto
qed

lemma length_join_slash:
  "xs \<noteq> [] \<Longrightarrow> length (join_slash xs) + 1 = sum_list (map length xs) + length xs"
  by (induction xs rule: join_slash.induct) auto

lemma sum_list_take_le: "sum_list (take i (ys :: nat list)) \<le> sum_list ys"
proof -
  have "sum_list ys = sum_list (take i ys) + sum_list (drop i ys)"
    by (metis append_take_drop_id sum_list_append)
  then show ?thesis by simp
qed

text \<open>A proper prefix of the parts joins to a strictly shorter string.\<close>

lemma length_join_take:
  assumes "0 < i" "i < length xs"
  shows "length (join_slash (take i xs)) < length (join_slash xs)"
proof -
  have ne: "xs \<noteq> []" "take i xs \<noteq> []" using assms by auto
  have a: "length (join_slash xs) + 1 = sum_list (map length xs) + length xs"
    using length_join_slash [OF ne(1)] .
  have b: "length (join_slash (take i xs)) + 1 = sum_list (map length (take i xs)) + i"
    using length_join_slash [OF ne(2)] assms by simp
  have "sum_list (map length (take i xs)) \<le> sum_list (map length xs)"
    using sum_list_take_le [of i "map length xs"] by (simp add: take_map)
  with a b assms show ?thesis by linarith
qed

lemma length_get_path_tree: "length (get_path_tree p) = length (split_slash p)"
  by (simp add: get_path_tree_def Let_def del: upt_Suc)

lemma get_path_tree_nth:
  "k < length (split_slash p) \<Longrightarrow> get_path_tree p ! k = join_slash (take (Suc k) (split_slash p))"
  unfolding get_path_tree_def Let_def
  by (simp del: upt_Suc)

lemma get_path_tree_shorter:
  assumes "Suc k < length (split_slash p)"
  shows "length (get_path_tree p ! k) < length p"
proof -
  have "length (join_slash (take (Suc k) (split_slash p))) < length (join_slash (split_slash p))"
    using assms by (intro length_join_take) auto
  then show ?thesis using assms by (simp add: get_path_tree_nth join_split_slash)
qed

text \<open>The path itself closes its path tree, and stands nowhere else in it.\<close>

lemma get_path_tree_last: "last (get_path_tree p) = p"
proof -
  let ?n = "length (split_slash p)"
  have n: "0 < ?n" using split_slash_nonempty [of p] by simp
  have "get_path_tree p \<noteq> []" using n length_get_path_tree [of p] by auto
  then have "last (get_path_tree p) = get_path_tree p ! (?n - 1)"
    by (simp add: last_conv_nth length_get_path_tree)
  also have "\<dots> = join_slash (take ?n (split_slash p))"
    using n get_path_tree_nth [of "?n - 1" p] by simp
  finally show ?thesis by (simp add: join_split_slash)
qed

lemma get_path_tree_self: "p \<in> set (get_path_tree p)"
  by (metis get_path_tree_last last_in_set length_get_path_tree length_0_conv split_slash_nonempty)

lemma get_path_tree_split:
  assumes "a \<in> set (get_path_tree p)"
  shows "\<exists>xs ys. get_path_tree p = xs @ a # ys \<and> p \<notin> set xs"
proof -
  obtain xs ys where d: "get_path_tree p = xs @ a # ys"
    using assms by (auto dest: split_list)
  have "p \<notin> set xs"
  proof
    assume "p \<in> set xs"
    then obtain k where k: "k < length xs" "xs ! k = p" by (auto simp: in_set_conv_nth)
    have "Suc k < length (get_path_tree p)" using k d by simp
    then have "Suc k < length (split_slash p)" by (simp add: length_get_path_tree)
    then have "length (get_path_tree p ! k) < length p" by (rule get_path_tree_shorter)
    moreover have "get_path_tree p ! k = p" using k d by (simp add: nth_append)
    ultimately show False by simp
  qed
  with d show ?thesis by blast
qed

section \<open>The resolution loop\<close>

lemma check_loop_deleted:
  assumes "path \<notin> set xs" "\<not> ex a" "ex (a @ ''.deleted'')"
  shows "\<exists>r. check_loop ex path (xs @ a # ys) cb md = Inl r \<and> \<not> er_exists r"
  using assms
  by (induction xs arbitrary: cb md) (auto simp: mkExistsReturn_def)

text \<open>A return from inside the loop is one of two shapes.\<close>

lemma check_loop_returns:
  "check_loop ex path pts cb md = Inl r \<Longrightarrow>
     (er_modification r = 1 \<and> \<not> er_exists r \<and> er_where r = 0) \<or>
     (er_modification r = 0 \<and> er_exists r \<and> er_where r = 0)"
  by (induction pts arbitrary: cb md) (auto simp: mkExistsReturn_def split: if_splits)

lemma check_loop_falls_through:
  "check_loop ex path pts cb md = Inr (cb', md') \<Longrightarrow> md \<noteq> 1 \<Longrightarrow> md' \<noteq> 1"
  by (induction pts arbitrary: cb md) (auto split: if_splits)

lemma check_loop_found:
  "path \<in> set pts \<Longrightarrow> ex path \<Longrightarrow> \<exists>r. check_loop ex path pts cb md = Inl r"
  by (induction pts arbitrary: cb md) auto

lemma leading_fs_present:
  assumes "fs_exists B (st (transparent_fs ov)) p"
  shows "leading_fs B ov st p = transparent_fs ov"
proof -
  obtain r where r: "check_loop (fs_exists B (st (transparent_fs ov))) p (get_path_tree p) True 0 = Inl r"
    using check_loop_found [OF get_path_tree_self] assms by blast
  from check_loop_returns [OF r] show ?thesis
    by (auto simp: leading_fs_def check_exists_and_where_def r Let_def)
qed

section \<open>Existence on the overlay\<close>

text \<open>
  Claim C1. Let \<open>a\<close> be any entry of the ancestor chain of \<open>p\<close> (the path tree, which
  ends with \<open>p\<close> itself). If delta does not have \<open>a\<close> but has \<open>a.deleted\<close>, then
  \<^verbatim>\<open>exists(p)\<close> on the overlay is \<open>False\<close>, whatever base says about \<open>p\<close>.
\<close>

theorem overlay_exists_deleted_ancestor:
  assumes "a \<in> set (get_path_tree p)"
    and "\<not> fs_exists B (st (transparent_fs ov)) a"
    and "fs_exists B (st (transparent_fs ov)) (a @ ''.deleted'')"
  shows "overlay_exists B ov st p = False"
proof -
  obtain xs ys where d: "get_path_tree p = xs @ a # ys" and nin: "p \<notin> set xs"
    using get_path_tree_split [OF assms(1)] by blast
  obtain r where "check_loop (fs_exists B (st (transparent_fs ov))) p (get_path_tree p) True 0 = Inl r"
    and "\<not> er_exists r"
    using check_loop_deleted [OF nin assms(2) assms(3)] d by metis
  then show ?thesis by (simp add: overlay_exists_def check_exists_and_where_def)
qed

text \<open>
  Delta holds only the marker \<^verbatim>\<open>a.deleted\<close>, base holds \<^verbatim>\<open>a/b\<close>: the overlay does not
  see \<^verbatim>\<open>a/b\<close>.
\<close>

theorem overlay_exists_deleted_ancestor_witness:
  "fs_exists mem (two_layers [(''a.deleted'', File '''')] [(''a'', Dir), (''a/b'', File ''x'')] 1) ''a/b'' \<and>
   overlay_exists mem delta_over_base
     (two_layers [(''a.deleted'', File '''')] [(''a'', Dir), (''a/b'', File ''x'')]) ''a/b'' = False"
proof -
  let ?st = "two_layers [(''a.deleted'', File '''')] [(''a'', Dir), (''a/b'', File ''x'')]"
  have h1: "''a'' \<in> set (get_path_tree ''a/b'')" by code_simp
  have h2: "\<not> fs_exists mem (?st (transparent_fs delta_over_base)) ''a''" by code_simp
  have h3: "fs_exists mem (?st (transparent_fs delta_over_base)) (''a'' @ ''.deleted'')" by code_simp
  have b: "fs_exists mem (?st 1) ''a/b''" by code_simp
  show ?thesis
    using overlay_exists_deleted_ancestor [where B = mem and ov = delta_over_base and st = ?st, OF h1 h2 h3] b
    by simp
qed

text \<open>
  Claim C8. Whenever \<^verbatim>\<open>_check_exists_and_where\<close> reports a deletion marker
  (\<^verbatim>\<open>modification == 1\<close>), it reports \<^verbatim>\<open>exists == False\<close> and \<^verbatim>\<open>where == 0\<close>: no result
  says both deleted and existing.
\<close>

theorem check_exists_and_where_consistent:
  "er_modification (check_exists_and_where B ov st p) = 1 \<longrightarrow>
     er_exists (check_exists_and_where B ov st p) = False \<and>
     er_where (check_exists_and_where B ov st p) = 0"
proof (cases "check_loop (fs_exists B (st (transparent_fs ov))) p (get_path_tree p) True 0")
  case (Inl r)
  then show ?thesis using check_loop_returns [OF Inl]
    by (auto simp: check_exists_and_where_def)
next
  case (Inr s)
  obtain cb md where s: "s = (cb, md)" by (cases s)
  have "md \<noteq> 1" using check_loop_falls_through [of _ _ _ True 0 cb md] Inr s by auto
  then show ?thesis using Inr s
    by (auto simp: check_exists_and_where_def mkExistsReturn_def)
qed

theorem check_exists_and_where_consistent_witness:
  "er_modification (check_exists_and_where mem delta_over_base
      (two_layers [(''a.deleted'', File '''')] [(''a'', Dir), (''a/b'', File ''x'')]) ''a/b'') = 1 \<and>
   er_exists (check_exists_and_where mem delta_over_base
      (two_layers [(''a.deleted'', File '''')] [(''a'', Dir), (''a/b'', File ''x'')]) ''a/b'') = False \<and>
   er_where (check_exists_and_where mem delta_over_base
      (two_layers [(''a.deleted'', File '''')] [(''a'', Dir), (''a/b'', File ''x'')]) ''a/b'') = 0"
proof -
  let ?r = "check_exists_and_where mem delta_over_base
      (two_layers [(''a.deleted'', File '''')] [(''a'', Dir), (''a/b'', File ''x'')]) ''a/b''"
  have m: "er_modification ?r = 1" by code_simp
  show ?thesis
    using check_exists_and_where_consistent [of mem delta_over_base
      "two_layers [(''a.deleted'', File '''')] [(''a'', Dir), (''a/b'', File ''x'')]" "''a/b''"] m
    by simp
qed

section \<open>Removing a file through the overlay\<close>

text \<open>
  Claim C2. With delta and base two different filesystem objects, \<^verbatim>\<open>rm_file(p)\<close> on the
  overlay leaves the state of base as it was, so \<^verbatim>\<open>base.exists(p)\<close> is unchanged. When
  \<open>p\<close> resolves to delta the call is \<^verbatim>\<open>rm_file(p)\<close> on delta; when \<open>p\<close> resolves to base
  the only effect is \<^verbatim>\<open>touch(p + ".deleted")\<close> on delta.
\<close>

theorem overlay_rm_file_frame:
  assumes "transparent_fs ov \<noteq> base_fs ov"
  shows "snd (overlay_rm_file B ov p st) (base_fs ov) = st (base_fs ov) \<and>
         fs_exists B (snd (overlay_rm_file B ov p st) (base_fs ov)) p = fs_exists B (st (base_fs ov)) p \<and>
         (leading_fs B ov st p = transparent_fs ov \<longrightarrow>
            overlay_rm_file B ov p st = call (\<lambda>s. fs_rm_file B s p) (transparent_fs ov) st) \<and>
         (leading_fs B ov st p = base_fs ov \<longrightarrow>
            snd (overlay_rm_file B ov p st) =
              st (transparent_fs ov := snd (fs_touch B (st (transparent_fs ov)) (p @ ''.deleted''))))"
proof -
  have frame: "snd (overlay_rm_file B ov p st) (base_fs ov) = st (base_fs ov)"
    using assms
    by (auto simp: overlay_rm_file_def Let_def call_def seq_def pure_def split: prod.splits sum.splits)
  have del: "leading_fs B ov st p = transparent_fs ov \<longrightarrow>
      overlay_rm_file B ov p st = call (\<lambda>s. fs_rm_file B s p) (transparent_fs ov) st"
    by (simp add: overlay_rm_file_def Let_def)
  have mark: "leading_fs B ov st p = base_fs ov \<longrightarrow>
      snd (overlay_rm_file B ov p st) =
        st (transparent_fs ov := snd (fs_touch B (st (transparent_fs ov)) (p @ ''.deleted'')))"
    using assms
    by (auto simp: overlay_rm_file_def Let_def call_def seq_def pure_def split: prod.splits sum.splits)
  from frame del mark show ?thesis by simp
qed

text \<open>The file \<^verbatim>\<open>f\<close> is in base only: base keeps it, delta gets \<^verbatim>\<open>f.deleted\<close>.\<close>

theorem overlay_rm_file_frame_witness:
  "leading_fs mem delta_over_base (two_layers [] [(''f'', File ''x'')]) ''f'' = base_fs delta_over_base \<and>
   snd (overlay_rm_file mem delta_over_base ''f'' (two_layers [] [(''f'', File ''x'')])) 1 = [(''f'', File ''x'')] \<and>
   snd (overlay_rm_file mem delta_over_base ''f'' (two_layers [] [(''f'', File ''x'')])) 0 = [(''f.deleted'', File '''')]"
proof -
  let ?st = "two_layers [] [(''f'', File ''x'')]"
  have d: "transparent_fs delta_over_base \<noteq> base_fs delta_over_base" by code_simp
  have l: "leading_fs mem delta_over_base ?st ''f'' = base_fs delta_over_base" by code_simp
  have t: "snd (fs_touch mem (?st (transparent_fs delta_over_base)) (''f'' @ ''.deleted'')) = [(''f.deleted'', File '''')]"
    by code_simp
  have b: "?st 1 = [(''f'', File ''x'')]" "base_fs delta_over_base = 1" "transparent_fs delta_over_base = 0"
    by (simp_all add: two_layers_def delta_over_base_def)
  show ?thesis
    using overlay_rm_file_frame [OF d, of mem "''f''" ?st] l t b by simp
qed

section \<open>Listing a directory through the overlay\<close>

text \<open>
  For every backing filesystem: a base listing that starts with a plain name stops the
  dict comprehension, and a delta listing that starts with a dict stops the loop.
\<close>

lemma overlay_ls_names_raise:
  "fs_ls B (st (base_fs ov)) d detail = Inr (Name x # xs) \<Longrightarrow>
     overlay_ls B ov st d detail = Inl TypeError"
  by (simp add: overlay_ls_def)

lemma overlay_ls_infos_raise:
  "fs_ls B (st (base_fs ov)) d detail = Inr items \<Longrightarrow> ls_base_dict items [] = Inr out \<Longrightarrow>
     fs_ls B (st (transparent_fs ov)) d detail = Inr (Info i # rest) \<Longrightarrow>
     overlay_ls B ov st d detail = Inl AttributeError"
  by (simp add: overlay_ls_def)

text \<open>
  Claim C3. The merge of the two listings is what \<^verbatim>\<open>ls\<close> is written to compute, but it
  reads the base items as dicts (\<^verbatim>\<open>item["name"]\<close>) and the delta items as strings
  (\<^verbatim>\<open>item.endswith\<close>), while both listings are asked for with the same \<^verbatim>\<open>detail\<close>. On
  the example of the claim (base lists \<^verbatim>\<open>d/x\<close> and \<^verbatim>\<open>d/y\<close>, delta lists
  \<^verbatim>\<open>d/x.deleted\<close> and \<^verbatim>\<open>d/z\<close>) the call raises \<^verbatim>\<open>TypeError\<close> with \<^verbatim>\<open>detail=False\<close> and
  \<^verbatim>\<open>AttributeError\<close> with \<^verbatim>\<open>detail=True\<close>, instead of returning \<^verbatim>\<open>d/y\<close> and \<^verbatim>\<open>d/z\<close>.
\<close>

theorem overlay_ls_raises_on_merge:
  "overlay_ls mem delta_over_base
     (two_layers [(''d/x.deleted'', File ''''), (''d/z'', File ''n'')]
                 [(''d/x'', File ''a''), (''d/y'', File ''b'')]) ''d'' False = Inl TypeError \<and>
   overlay_ls mem delta_over_base
     (two_layers [(''d/x.deleted'', File ''''), (''d/z'', File ''n'')]
                 [(''d/x'', File ''a''), (''d/y'', File ''b'')]) ''d'' True = Inl AttributeError"
  by code_simp

section \<open>Writing and reading back through the overlay\<close>

lemma seq_Inr:
  "seq m f w = (Inr y, w'') \<Longrightarrow> \<exists>x w'. m w = (Inr x, w') \<and> f x w' = (Inr y, w'')"
  by (auto simp: seq_def split: prod.splits sum.splits)

text \<open>
  The in-memory filesystem has every path that was written, and reads it back in text
  mode; a content without carriage return comes back unchanged.
\<close>

lemma mem_write_then_read_text:
  assumes "fs_open_write mem s q ''w'' d = (Inr r, s')"
  shows "fs_exists mem s' q \<and> fs_read_text mem s' q = Inr (universal_newlines d)"
proof -
  have s': "s' = filter (\<lambda>kv. fst kv \<noteq> q) s @ [(q, File d)]"
    using assms by (simp add: mem_def mem_open_write_def mem_put_def)
  have "map_of (filter (\<lambda>kv. fst kv \<noteq> q) s) q = None"
    by (auto simp: map_of_eq_None_iff)
  then have "map_of s' q = Some (File d)"
    by (simp add: s' map_add_def)
  then show ?thesis by (simp add: mem_def mem_exists_def mem_read_text_def mem_read_def)
qed

lemma universal_newlines_plain: "CHR 0x0D \<notin> set c \<Longrightarrow> universal_newlines c = c"
  by (induction c rule: universal_newlines.induct) auto

text \<open>
  Claim C4, amended. After content \<open>c\<close> is written to \<open>p\<close> through \<^verbatim>\<open>open(p, "w")\<close> of the
  overlay, the write has gone to delta, after \<^verbatim>\<open>mkdirs(parent, exist_ok=True)\<close> there.
  With delta now having the path, \<^verbatim>\<open>read_text(p)\<close> of the overlay resolves to delta and
  returns what \<^verbatim>\<open>read_text(p)\<close> of delta returns for the written file, whatever base
  holds: it is \<open>c\<close> exactly when delta reads \<open>c\<close> back unchanged.
\<close>

theorem overlay_read_after_write:
  assumes wr: "overlay_open_write B parent ov p ''w'' c st = (Inr r, st')"
    and ex: "fs_exists B (st' (transparent_fs ov)) p"
  shows "leading_fs B ov st' p = transparent_fs ov \<and>
         overlay_read_text B ov st' p = fs_read_text B (st' (transparent_fs ov)) p \<and>
         (fs_read_text B (st' (transparent_fs ov)) p = Inr c \<longrightarrow>
            overlay_read_text B ov st' p = Inr c) \<and>
         (\<exists>x s1. fs_mkdirs B (st (transparent_fs ov)) (parent p) True = (Inr x, s1) \<and>
                 st' = st (transparent_fs ov := snd (fs_open_write B s1 p ''w'' c)))"
proof -
  let ?t = "transparent_fs ov"
  obtain fs st1 where g: "get_fs_for_open B parent ov p ''w'' st = (Inr fs, st1)"
    and w: "(case fs of None \<Rightarrow> pure (Inl AttributeError)
             | Some i \<Rightarrow> call (\<lambda>s. fs_open_write B s p ''w'' c) i) st1 = (Inr r, st')"
    using wr unfolding overlay_open_write_def by (blast dest: seq_Inr)
  have g': "seq (call (\<lambda>s. fs_mkdirs B s (parent p) True) ?t)
                (\<lambda>_. pure (Inr (Some ?t))) st = (Inr fs, st1)"
    using g by (simp add: get_fs_for_open_def)
  obtain x where mk: "call (\<lambda>s. fs_mkdirs B s (parent p) True) ?t st = (Inr x, st1)"
    and fs: "fs = Some ?t"
    using seq_Inr [OF g'] by (auto simp: pure_def)
  obtain s1 where s1: "fs_mkdirs B (st ?t) (parent p) True = (Inr x, s1)" and st1: "st1 = st (?t := s1)"
    using mk by (auto simp: call_def split: prod.splits)
  obtain s2 where s2: "fs_open_write B s1 p ''w'' c = (Inr r, s2)" and st': "st' = st (?t := s2)"
    using w fs st1 by (auto simp: call_def split: prod.splits)
  have lead: "leading_fs B ov st' p = ?t" using ex by (rule leading_fs_present)
  have rd: "overlay_read_text B ov st' p = fs_read_text B (st' ?t) p"
    by (simp add: overlay_read_text_def lead)
  have "st' = st (?t := snd (fs_open_write B s1 p ''w'' c))" using s2 st' by simp
  with lead rd s1 show ?thesis by auto
qed

text \<open>
  Base has \<^verbatim>\<open>a/f.txt\<close> with the content \<^verbatim>\<open>old\<close>, delta is empty. Writing \<^verbatim>\<open>new\<close> creates
  \<^verbatim>\<open>a\<close> and \<^verbatim>\<open>a/f.txt\<close> in delta, and the overlay reads \<^verbatim>\<open>new\<close>.
\<close>

theorem overlay_read_after_write_witness:
  "overlay_open_write mem posix_parent delta_over_base ''a/f.txt'' ''w'' ''new''
     (two_layers [] [(''a'', Dir), (''a/f.txt'', File ''old'')])
     = (Inr PNone, two_layers [(''a'', Dir), (''a/f.txt'', File ''new'')]
                              [(''a'', Dir), (''a/f.txt'', File ''old'')]) \<and>
   fs_exists mem (two_layers [(''a'', Dir), (''a/f.txt'', File ''new'')]
                             [(''a'', Dir), (''a/f.txt'', File ''old'')] 0) ''a/f.txt'' \<and>
   overlay_read_text mem delta_over_base
     (two_layers [(''a'', Dir), (''a/f.txt'', File ''new'')]
                 [(''a'', Dir), (''a/f.txt'', File ''old'')]) ''a/f.txt'' = Inr ''new''"
proof -
  let ?st = "two_layers [] [(''a'', Dir), (''a/f.txt'', File ''old'')]"
  let ?st' = "two_layers [(''a'', Dir), (''a/f.txt'', File ''new'')]
                         [(''a'', Dir), (''a/f.txt'', File ''old'')]"
  have p: "posix_parent ''a/f.txt'' = ''a''" by code_simp
  have w: "overlay_open_write mem posix_parent delta_over_base ''a/f.txt'' ''w'' ''new'' ?st
             = (Inr PNone, ?st')"
    by (auto simp: overlay_open_write_def get_fs_for_open_def seq_def pure_def call_def p
        mem_def mem_mkdirs_def mem_exists_def mem_put_def mem_open_write_def
        two_layers_def delta_over_base_def)
  have e: "fs_exists mem (?st' (transparent_fs delta_over_base)) ''a/f.txt''" by code_simp
  have e0: "fs_exists mem (?st' 0) ''a/f.txt''" by code_simp
  have rd: "fs_read_text mem (?st' (transparent_fs delta_over_base)) ''a/f.txt'' = Inr ''new''"
    by code_simp
  show ?thesis
    using overlay_read_after_write [OF w e] w e0 rd by simp
qed

text \<open>
  Claim C4 as it stands, with \<open>c\<close> returned for every content, fails on a content with a
  carriage return. Both layers are empty; \<^verbatim>\<open>a\r\nb\<close> is written to \<^verbatim>\<open>f.txt\<close> through the
  overlay; the write succeeds and the overlay reads \<^verbatim>\<open>a\nb\<close>.
\<close>

theorem overlay_write_then_read_counterexample:
  "fst (overlay_open_write mem posix_parent delta_over_base ''f.txt'' ''w''
          [CHR ''a'', CHR 0x0D, CHR 0x0A, CHR ''b''] (two_layers [] [])) = Inr PNone \<and>
   overlay_read_text mem delta_over_base
     (snd (overlay_open_write mem posix_parent delta_over_base ''f.txt'' ''w''
             [CHR ''a'', CHR 0x0D, CHR 0x0A, CHR ''b''] (two_layers [] []))) ''f.txt''
     = Inr [CHR ''a'', CHR 0x0A, CHR ''b''] \<and>
   overlay_read_text mem delta_over_base
     (snd (overlay_open_write mem posix_parent delta_over_base ''f.txt'' ''w''
             [CHR ''a'', CHR 0x0D, CHR 0x0A, CHR ''b''] (two_layers [] []))) ''f.txt''
     \<noteq> Inr [CHR ''a'', CHR 0x0D, CHR 0x0A, CHR ''b'']"
  by code_simp

section \<open>Resolution on the routing filesystem\<close>

lemma takeWhile_no_slash: "CHR ''/'' \<notin> set p \<Longrightarrow> takeWhile (\<lambda>c. c \<noteq> CHR ''/'') p = p"
  by (induction p) auto

text \<open>
  Claim C5. The first segment of \<open>p\<close> is \<open>p\<close> up to its first slash. If it is no mount key
  and a \<^verbatim>\<open>"default"\<close> mount \<open>d\<close> is configured, \<^verbatim>\<open>_get_filesystem(p)\<close> returns \<open>d\<close>, the
  empty matched key and the whole of \<open>p\<close>; so \<^verbatim>\<open>exists(p)\<close> on the routing filesystem is
  \<^verbatim>\<open>exists(p)\<close> on \<open>d\<close>.
\<close>

theorem nested_default_resolution:
  assumes "takeWhile (\<lambda>c. c \<noteq> CHR ''/'') p \<notin> fst ` set file_systems"
    and "map_of file_systems ''default'' = Some d"
  shows "get_filesystem file_systems p = Inr (d, '''', p) \<and>
         nested_exists B file_systems st p = Inr (fs_exists B (st d) p)"
proof -
  have none: "map_of file_systems (takeWhile (\<lambda>c. c \<noteq> CHR ''/'') p) = None"
    using assms(1) by (simp add: map_of_eq_None_iff)
  have "get_filesystem file_systems p = Inr (d, '''', p)"
  proof (cases "CHR ''/'' \<in> set p")
    case True
    then show ?thesis using none assms(2)
      by (simp add: get_filesystem_def split_first_def get_default_def)
  next
    case False
    then show ?thesis using none assms(2)
      by (simp add: get_filesystem_def split_first_def get_default_def takeWhile_no_slash)
  qed
  then show ?thesis by (simp add: nested_exists_def)
qed

text \<open>Mounts \<^verbatim>\<open>a\<close> and \<^verbatim>\<open>default\<close>; the path \<^verbatim>\<open>q/f.txt\<close> goes to the default mount whole.\<close>

theorem nested_default_resolution_witness:
  "get_filesystem [(''a'', 1), (''default'', 0)] ''q/f.txt'' = Inr (0, '''', ''q/f.txt'') \<and>
   nested_exists mem [(''a'', 1), (''default'', 0)]
     (two_layers [(''q/f.txt'', File ''x'')] []) ''q/f.txt'' = Inr True"
proof -
  have h1: "takeWhile (\<lambda>c. c \<noteq> CHR ''/'') ''q/f.txt'' \<notin> fst ` set [(''a'', 1::nat), (''default'', 0)]"
    by simp
  have h2: "map_of [(''a'', 1::nat), (''default'', 0)] ''default'' = Some 0" by simp
  have e: "fs_exists mem (two_layers [(''q/f.txt'', File ''x'')] [] 0) ''q/f.txt''" by code_simp
  show ?thesis
    using nested_default_resolution [where B = mem and st = "two_layers [(''q/f.txt'', File ''x'')] []",
        OF h1 h2] e
    by simp
qed

section \<open>Copy and rename on the routing filesystem\<close>

text \<open>The only error of \<^verbatim>\<open>_get_filesystem\<close> is the missing \<^verbatim>\<open>"default"\<close> key.\<close>

lemma get_filesystem_error: "get_filesystem file_systems p = Inl e \<Longrightarrow> e = KeyError"
  by (auto simp: get_filesystem_def split_first_def get_default_def split: if_splits option.splits)

lemma unpack2_tuple_of:
  "unpack2 (tuple_of t) = Inl (ValueError ''too many values to unpack (expected 2)'')"
  by (cases t) (simp add: unpack2_def tuple_of_def)

lemma nested_cp_file_raises:
  "nested_cp_file B file_systems path1 path2 st =
     (case get_filesystem file_systems path1 of
        Inl e \<Rightarrow> (Inl KeyError, st)
      | Inr t \<Rightarrow> (Inl (ValueError ''too many values to unpack (expected 2)''), st))"
  by (auto simp: nested_cp_file_def seq_def pure_def unpack2_tuple_of
           dest: get_filesystem_error split: sum.splits)

lemma nested_mv_raises:
  "nested_mv B file_systems path1 path2 st =
     (case get_filesystem file_systems path1 of
        Inl e \<Rightarrow> (Inl KeyError, st)
      | Inr t \<Rightarrow> (Inl (ValueError ''too many values to unpack (expected 2)''), st))"
  by (auto simp: nested_mv_def seq_def pure_def unpack2_tuple_of
           dest: get_filesystem_error split: sum.splits)

text \<open>
  Claim C6. \<^verbatim>\<open>cp_file\<close> and \<^verbatim>\<open>mv\<close> are written to resolve both endpoints and to delegate
  or copy, but their first statement unpacks the three results of \<^verbatim>\<open>_get_filesystem\<close>
  into two names. For all mounts and all pairs of paths both calls raise (\<^verbatim>\<open>ValueError\<close>
  from the unpacking, or \<^verbatim>\<open>KeyError\<close> when the first path needs a default mount that is
  not configured) and no backing filesystem is touched.
\<close>

theorem nested_cp_file_mv_always_raise:
  "fst (nested_cp_file B file_systems path1 path2 st)
     \<in> {Inl KeyError, Inl (ValueError ''too many values to unpack (expected 2)'')} \<and>
   snd (nested_cp_file B file_systems path1 path2 st) = st \<and>
   fst (nested_mv B file_systems path1 path2 st)
     \<in> {Inl KeyError, Inl (ValueError ''too many values to unpack (expected 2)'')} \<and>
   snd (nested_mv B file_systems path1 path2 st) = st"
  by (simp add: nested_cp_file_raises nested_mv_raises split: sum.splits)

section \<open>Removing the root of the routing filesystem\<close>

text \<open>
  Claim C7. \<^verbatim>\<open>rmdir("")\<close> fails with \<^verbatim>\<open>Cannot remove root path\<close> for all mounts. \<^verbatim>\<open>rm("")\<close>
  has no such guard: with a default mount \<open>d\<close> it is \<^verbatim>\<open>rm("", recursive, maxdepth)\<close> on
  \<open>d\<close>, and on the in-memory filesystem \<^verbatim>\<open>rm("", recursive=True)\<close> succeeds and empties
  the default mount.
\<close>

theorem nested_rm_root_delegates:
  "nested_rmdir B file_systems '''' st = (Inl (ValueError ''Cannot remove root path''), st) \<and>
   nested_rm B [(''default'', d)] '''' recursive maxdepth st
     = call (\<lambda>s. fs_rm B s '''' recursive maxdepth) d st \<and>
   nested_rm mem [(''default'', 0)] '''' True None (\<lambda>i. [(''f'', File ''x'')])
     = (Inr PNone, (\<lambda>i. [(''f'', File ''x'')])(0 := []))"
  by (auto simp: nested_rmdir_def nested_rm_def get_filesystem_def split_first_def get_default_def
      call_def mem_def mem_rm_def under_def split: option.splits)

section \<open>Walking the routing filesystem\<close>

text \<open>
  Claim C9. For every path other than \<^verbatim>\<open>""\<close>, \<^verbatim>\<open>walk\<close> yields nothing and raises
  nothing: no mount is consulted.
\<close>

theorem nested_walk_nonroot:
  "p \<noteq> '''' \<Longrightarrow> nested_walk B file_systems st p maxdepth = ([], None)"
  by (simp add: nested_walk_def)

theorem nested_walk_nonroot_witness:
  "nested_walk mem [(''a'', 1), (''default'', 0)]
     (two_layers [(''f'', File ''x'')] [(''g'', File ''y'')]) ''a'' (Some 2) = ([], None)"
  using nested_walk_nonroot [of "''a''" mem "[(''a'', 1), (''default'', 0)]"
      "two_layers [(''f'', File ''x'')] [(''g'', File ''y'')]" "Some 2"]
  by simp

section \<open>Link existence on the overlay\<close>

text \<open>
  Claim C10. When the base class provides no \<^verbatim>\<open>_get_filesystem\<close>, \<^verbatim>\<open>lexists(p)\<close> on the
  overlay raises \<^verbatim>\<open>AttributeError\<close> for every path and every state, and returns no
  boolean.
\<close>

theorem overlay_lexists_raises:
  "inherited ''_get_filesystem'' = None \<Longrightarrow> overlay_lexists B inherited ov st p = Inl AttributeError"
  by (simp add: overlay_lexists_def)

theorem overlay_lexists_raises_witness:
  "overlay_lexists mem Map.empty delta_over_base (two_layers [(''f'', File ''x'')] []) ''f''
     = Inl AttributeError"
  using overlay_lexists_raises [of Map.empty mem delta_over_base "two_layers [(''f'', File ''x'')] []" "''f''"]
  by simp

end
